theory Spec2Isabelle
  imports Complex_Main
begin

section \<open>Values and objects of the theme module\<close>

text \<open>
  The module \<^verbatim>\<open>src/core/theme/variables.js\<close> reads the fields of a theme object and
  writes a map of CSS variables. A field may hold any JavaScript value, so values are a
  datatype: the code tests them for truthiness, for being a string and for being an
  array, and otherwise passes them through unchanged. Numbers that reach a template
  literal are integers (the results of \<^verbatim>\<open>parseInt\<close>, \<^verbatim>\<open>Math.min\<close>, \<^verbatim>\<open>+\<close> and \<^verbatim>\<open>-\<close> on
  them); a theme's own numbers are only tested for truthiness. Characters are those of
  \<^typ>\<open>char\<close>; every character outside that range is, like most inside it, not a
  hexadecimal digit. Arrays are dense (no holes).
\<close>

datatype jsval =
    JUndefined
  | JNull
  | JBool bool
  | JNum rat
  | JStr string
  | JArr "jsval list"
  | JObj "(string \<times> jsval) list"

type_synonym obj = "string \<rightharpoonup> jsval"

text \<open>Reading a property: \<^verbatim>\<open>o.k\<close> is \<^verbatim>\<open>undefined\<close> when the object has no such property.\<close>

definition get :: "obj \<Rightarrow> string \<Rightarrow> jsval" where
  "get ob k = (case ob k of None \<Rightarrow> JUndefined | Some v \<Rightarrow> v)"

text \<open>Truthiness, as \<^verbatim>\<open>if (x)\<close>, \<^verbatim>\<open>!x\<close> and \<^verbatim>\<open>x && y\<close> test it.\<close>

fun truthy :: "jsval \<Rightarrow> bool" where
  "truthy JUndefined = False"
| "truthy JNull = False"
| "truthy (JBool t) = t"
| "truthy (JNum n) = (n \<noteq> 0)"
| "truthy (JStr s) = (s \<noteq> [])"
| "truthy (JArr xs) = True"
| "truthy (JObj ps) = True"

section \<open>Numbers in template literals\<close>

text \<open>
  \<^verbatim>\<open>`${n}`\<close> of an integer is its decimal numeral, with a minus sign when it is negative.
\<close>

fun digits :: "nat \<Rightarrow> string" where
  "digits n =
     (if n < 10 then [''0123456789'' ! n]
      else digits (n div 10) @ [''0123456789'' ! (n mod 10)])"

declare digits.simps [simp del]

definition numToString :: "int \<Rightarrow> string" where
  "numToString i = (if i < 0 then CHR ''-'' # digits (nat (- i)) else digits (nat i))"

section \<open>hexToRgb\<close>

record rgb =
  r :: int
  g :: int
  b :: int

text \<open>The character class \<^verbatim>\<open>[a-f\d]\<close> under the flag \<^verbatim>\<open>i\<close>.\<close>

definition hexDigit :: "char \<Rightarrow> bool" where
  "hexDigit c =
     (let n = (of_char c :: nat)
      in (97 \<le> n \<and> n \<le> 102) \<or> (48 \<le> n \<and> n \<le> 57) \<or> (65 \<le> n \<and> n \<le> 70))"

text \<open>The value \<^verbatim>\<open>parseInt(_, 16)\<close> gives a hexadecimal digit.\<close>

definition hexVal :: "char \<Rightarrow> int" where
  "hexVal c =
     (let n = (of_char c :: nat)
      in if 48 \<le> n \<and> n \<le> 57 then int n - 48
         else if 97 \<le> n \<and> n \<le> 102 then int n - 87
         else int n - 55)"

text \<open>
  \<^verbatim>\<open>parseInt(s, 16)\<close> on a string of hexadecimal digits, the only strings the
  regular expression's groups hand to it.
\<close>

definition parseInt16 :: "string \<Rightarrow> int" where
  "parseInt16 s = foldl (\<lambda>acc c. 16 * acc + hexVal c) 0 s"

text \<open>
  \<^verbatim>\<open>cleanHex.replace(shorthand, (m, r, g, b) => r + r + g + g + b + b)\<close>: the pattern is
  anchored at both ends, so it matches the whole string or nothing.
\<close>

definition expandShorthand :: "string \<Rightarrow> string" where
  "expandShorthand cleanHex =
     (case cleanHex of
        [c1, c2, c3] \<Rightarrow>
          if hexDigit c1 \<and> hexDigit c2 \<and> hexDigit c3 then [c1, c1, c2, c2, c3, c3]
          else cleanHex
      | _ \<Rightarrow> cleanHex)"

text \<open>
  \<^verbatim>\<open>hex.replace('#', '')\<close> with a string pattern removes the first occurrence of
  \<^verbatim>\<open>#\<close>, wherever it is: \<^const>\<open>remove1\<close>. The result \<^verbatim>\<open>null\<close> is \<^const>\<open>None\<close>.
\<close>

definition hexToRgb :: "jsval \<Rightarrow> rgb option" where
  "hexToRgb hex =
     (if \<not> truthy hex then None
      else case hex of
        JStr s \<Rightarrow>
          (let cleanHex = remove1 (CHR ''#'') s;
               full = expandShorthand cleanHex
           in case full of
                [c1, c2, c3, c4, c5, c6] \<Rightarrow>
                  if hexDigit c1 \<and> hexDigit c2 \<and> hexDigit c3 \<and>
                     hexDigit c4 \<and> hexDigit c5 \<and> hexDigit c6
                  then Some \<lparr>r = parseInt16 [c1, c2], g = parseInt16 [c3, c4],
                             b = parseInt16 [c5, c6]\<rparr>
                  else None
              | _ \<Rightarrow> None)
      | _ \<Rightarrow> None)"

section \<open>getDarkModeColors\<close>

text \<open>The template literals \<^verbatim>\<open>`rgb(${x}, ${y}, ${z})`\<close> and \<^verbatim>\<open>`rgba(${x}, ${y}, ${z}, 0.NN)`\<close>.\<close>

definition rgbString :: "int \<Rightarrow> int \<Rightarrow> int \<Rightarrow> string" where
  "rgbString x y z =
     ''rgb('' @ numToString x @ '', '' @ numToString y @ '', '' @ numToString z @ '')''"

definition rgbaString :: "int \<Rightarrow> int \<Rightarrow> int \<Rightarrow> string \<Rightarrow> string" where
  "rgbaString x y z alpha =
     ''rgba('' @ numToString x @ '', '' @ numToString y @ '', '' @ numToString z @ '', ''
       @ alpha @ '')''"

text \<open>
  \<^verbatim>\<open>(rgb.r * 299 + rgb.g * 587 + rgb.b * 114) / 1000\<close> is a division of numbers, not of
  integers, so the quotient is a rational here. The numerator is an integer that a double
  holds exactly; a quotient below \<open>128\<close> is at most \<open>127.999\<close> and its rounding to a double
  stays below \<open>128\<close>, and a quotient of \<open>128\<close> or more rounds to \<open>128\<close> or more: the test
  \<^verbatim>\<open>brightness < 128\<close> has the same outcome on the double as on the rational.
\<close>

definition brightness :: "rgb \<Rightarrow> rat" where
  "brightness c = of_int (r c * 299 + g c * 587 + b c * 114) / 1000"

text \<open>
  The object literal spreads the original theme and then sets sixteen fields; the
  conditional afterwards assigns three more.
\<close>

definition darkPalette :: "obj \<Rightarrow> obj" where
  "darkPalette originalTheme =
     originalTheme
       (''bgPrimary'' \<mapsto> JStr ''#1a1a1a'',
        ''bgSecondary'' \<mapsto> JStr ''#2d2d2d'',
        ''bgTertiary'' \<mapsto> JStr ''#3a3a3a'',
        ''textPrimary'' \<mapsto> JStr ''#e6e6e6'',
        ''textSecondary'' \<mapsto> JStr ''#b3b3b3'',
        ''textTertiary'' \<mapsto> JStr ''#888888'',
        ''borderLight'' \<mapsto> JStr ''#404040'',
        ''borderMedium'' \<mapsto> JStr ''#555555'',
        ''inlineCodeBg'' \<mapsto> JStr ''rgba(255, 255, 255, 0.1)'',
        ''inlineCodeText'' \<mapsto> JStr ''#f8f8f2'',
        ''inlineCodeBorder'' \<mapsto> JStr ''rgba(255, 255, 255, 0.15)'',
        ''blockquoteBackground'' \<mapsto> JStr ''rgba(255, 255, 255, 0.05)'',
        ''blockquoteBorder'' \<mapsto> get originalTheme ''primary'',
        ''tableHeaderBg'' \<mapsto> JStr ''#2d2d2d'',
        ''tableBorder'' \<mapsto> JStr ''#404040'',
        ''hrColor'' \<mapsto> get originalTheme ''primary'')"

definition getDarkModeColors :: "obj \<Rightarrow> obj" where
  "getDarkModeColors originalTheme =
     (let adjustedTheme = darkPalette originalTheme
      in if truthy (get originalTheme ''primary'') then
           (case hexToRgb (get originalTheme ''primary'') of
              None \<Rightarrow> adjustedTheme
            | Some c \<Rightarrow>
                if brightness c < 128 then
                  (let lighterR = min 255 (r c + 80);
                       lighterG = min 255 (g c + 80);
                       lighterB = min 255 (b c + 80)
                   in adjustedTheme
                        (''primary'' \<mapsto> JStr (rgbString lighterR lighterG lighterB),
                         ''primaryHover'' \<mapsto>
                           JStr (rgbString (min 255 (lighterR + 20)) (min 255 (lighterG + 20))
                                   (min 255 (lighterB + 20))),
                         ''primaryDark'' \<mapsto>
                           JStr (rgbString (min 255 (lighterR - 20)) (min 255 (lighterG - 20))
                                   (min 255 (lighterB - 20)))))
                else adjustedTheme)
         else adjustedTheme)"

section \<open>computeThemeVariables\<close>

text \<open>The object literal of the twenty fixed variables.\<close>

definition fixedVariables :: "obj \<Rightarrow> obj" where
  "fixedVariables theme =
     [''--theme-primary'' \<mapsto> get theme ''primary'',
      ''--theme-primary-hover'' \<mapsto> get theme ''primaryHover'',
      ''--theme-primary-light'' \<mapsto> get theme ''primaryLight'',
      ''--theme-primary-dark'' \<mapsto> get theme ''primaryDark'',
      ''--theme-text-primary'' \<mapsto> get theme ''textPrimary'',
      ''--theme-text-secondary'' \<mapsto> get theme ''textSecondary'',
      ''--theme-text-tertiary'' \<mapsto> get theme ''textTertiary'',
      ''--theme-bg-primary'' \<mapsto> get theme ''bgPrimary'',
      ''--theme-bg-secondary'' \<mapsto> get theme ''bgSecondary'',
      ''--theme-bg-tertiary'' \<mapsto> get theme ''bgTertiary'',
      ''--theme-border-light'' \<mapsto> get theme ''borderLight'',
      ''--theme-border-medium'' \<mapsto> get theme ''borderMedium'',
      ''--theme-inline-code-bg'' \<mapsto> get theme ''inlineCodeBg'',
      ''--theme-inline-code-text'' \<mapsto> get theme ''inlineCodeText'',
      ''--theme-inline-code-border'' \<mapsto> get theme ''inlineCodeBorder'',
      ''--theme-blockquote-border'' \<mapsto> get theme ''blockquoteBorder'',
      ''--theme-blockquote-bg'' \<mapsto> get theme ''blockquoteBackground'',
      ''--theme-hr-color'' \<mapsto> get theme ''hrColor'',
      ''--theme-table-header-bg'' \<mapsto> get theme ''tableHeaderBg'',
      ''--theme-table-border'' \<mapsto> get theme ''tableBorder'']"

text \<open>
  \<^verbatim>\<open>listColors.forEach((color, index) => { variables[`--theme-list-color-${index + 1}`] = color })\<close>,
  the loop carrying the variables and the index.
\<close>

definition listColorName :: "nat \<Rightarrow> string" where
  "listColorName index = ''--theme-list-color-'' @ numToString (int index + 1)"

fun forEachListColor :: "obj \<Rightarrow> nat \<Rightarrow> jsval list \<Rightarrow> obj" where
  "forEachListColor variables index [] = variables"
| "forEachListColor variables index (color # rest) =
     forEachListColor (variables(listColorName index \<mapsto> color)) (Suc index) rest"

text \<open>
  \<^verbatim>\<open>if (colorTheme.listColors && Array.isArray(colorTheme.listColors))\<close>: every array is
  truthy, so the test is that the field holds an array.
\<close>

definition listVariables :: "obj \<Rightarrow> obj \<Rightarrow> obj" where
  "listVariables colorTheme variables =
     (case get colorTheme ''listColors'' of
        JArr colors \<Rightarrow>
          if truthy (JArr colors) then forEachListColor variables 0 colors else variables
      | _ \<Rightarrow> variables)"

definition alphaVariables :: "obj \<Rightarrow> obj \<Rightarrow> obj" where
  "alphaVariables colorTheme variables =
     (if truthy (get colorTheme ''primary'') then
        (case hexToRgb (get colorTheme ''primary'') of
           None \<Rightarrow> variables
         | Some c \<Rightarrow>
             variables
               (''--theme-primary-rgb'' \<mapsto>
                  JStr (numToString (r c) @ '', '' @ numToString (g c) @ '', ''
                          @ numToString (b c)),
                ''--theme-primary-15'' \<mapsto> JStr (rgbaString (r c) (g c) (b c) ''0.15''),
                ''--theme-primary-20'' \<mapsto> JStr (rgbaString (r c) (g c) (b c) ''0.20''),
                ''--theme-primary-25'' \<mapsto> JStr (rgbaString (r c) (g c) (b c) ''0.25''),
                ''--theme-primary-40'' \<mapsto> JStr (rgbaString (r c) (g c) (b c) ''0.40''),
                ''--theme-primary-60'' \<mapsto> JStr (rgbaString (r c) (g c) (b c) ''0.60'')))
      else variables)"

text \<open>
  The theme argument is an object or absent: \<^const>\<open>None\<close> stands for \<^verbatim>\<open>null\<close> and
  \<^verbatim>\<open>undefined\<close>, which \<^verbatim>\<open>if (!colorTheme) return {}\<close> turns into the empty object; an
  object is always truthy.
\<close>

definition computeThemeVariables :: "obj option \<Rightarrow> bool \<Rightarrow> obj" where
  "computeThemeVariables colorTheme isDarkMode =
     (case colorTheme of
        None \<Rightarrow> Map.empty
      | Some ct \<Rightarrow>
          (let theme = (if isDarkMode then getDarkModeColors ct else ct);
               variables = fixedVariables theme
           in alphaVariables ct (listVariables ct variables)))"

section \<open>Re-serialising a triple\<close>

text \<open>
  Modelled from the spec: the form \<^verbatim>\<open>#rrggbb\<close> of an RGB triple, two lower-case
  hexadecimal digits for each component, which the round-trip property of \<^const>\<open>hexToRgb\<close>
  speaks of. The module itself has no serialiser.
\<close>

definition hexPair :: "int \<Rightarrow> string" where
  "hexPair n = [''0123456789abcdef'' ! nat (n div 16), ''0123456789abcdef'' ! nat (n mod 16)]"

definition rgbToHex :: "rgb \<Rightarrow> string" where
  "rgbToHex c = CHR ''#'' # hexPair (r c) @ hexPair (g c) @ hexPair (b c)"

section \<open>Lemmas about hexToRgb\<close>

lemma hexToRgb_not_string: "(\<And>s. v \<noteq> JStr s) \<Longrightarrow> hexToRgb v = None"
  by (cases v) (auto simp: hexToRgb_def)

lemma hexToRgb_Some_truthy: "hexToRgb v = Some c \<Longrightarrow> truthy v"
  by (auto simp: hexToRgb_def split: if_splits)

lemma hexVal_range: "hexDigit c \<Longrightarrow> 0 \<le> hexVal c \<and> hexVal c \<le> 15"
  unfolding hexDigit_def hexVal_def Let_def
  by auto

lemma parseInt16_pair: "parseInt16 [c1, c2] = 16 * hexVal c1 + hexVal c2"
  by (simp add: parseInt16_def)

lemma expandShorthand_cases:
  "expandShorthand s = (if length s = 3 \<and> list_all hexDigit s then [s ! 0, s ! 0, s ! 1, s ! 1, s ! 2, s ! 2] else s)"
  unfolding expandShorthand_def
  by (auto split: list.splits)

lemma case6:
  "(case full of [c1, c2, c3, c4, c5, c6] \<Rightarrow> F c1 c2 c3 c4 c5 c6 | _ \<Rightarrow> None) =
   (if length full = 6 then F (full ! 0) (full ! 1) (full ! 2) (full ! 3) (full ! 4) (full ! 5) else None)"
  by (simp split: list.split)

lemma length6_all:
  "length full = 6 \<Longrightarrow>
   list_all P full \<longleftrightarrow> P (full ! 0) \<and> P (full ! 1) \<and> P (full ! 2) \<and> P (full ! 3) \<and> P (full ! 4) \<and> P (full ! 5)"
proof -
  assume "length full = 6"
  then obtain c1 c2 c3 c4 c5 c6 where "full = [c1, c2, c3, c4, c5, c6]"
    by (auto simp: length_Suc_conv eval_nat_numeral)
  then show ?thesis by simp
qed

lemma hexToRgb_string:
  "hexToRgb (JStr s) =
     (let full = expandShorthand (remove1 (CHR ''#'') s)
      in if length full = 6 \<and> list_all hexDigit full
         then Some \<lparr>r = parseInt16 [full ! 0, full ! 1], g = parseInt16 [full ! 2, full ! 3],
                    b = parseInt16 [full ! 4, full ! 5]\<rparr>
         else None)"
proof (cases "s = []")
  case True
  then show ?thesis by (simp add: hexToRgb_def expandShorthand_def)
next
  case False
  then show ?thesis
    by (simp add: hexToRgb_def Let_def case6 length6_all)
qed


lemma length3_obtain:
  assumes "length s = 3"
  obtains c1 c2 c3 where "s = [c1, c2, c3]"
  using assms by (auto simp: length_Suc_conv eval_nat_numeral)

lemma expandShorthand_accept:
  "length (expandShorthand s) = 6 \<and> list_all hexDigit (expandShorthand s)
   \<longleftrightarrow> (length s = 3 \<or> length s = 6) \<and> list_all hexDigit s"
proof (cases "length s = 3")
  case True
  then obtain c1 c2 c3 where "s = [c1, c2, c3]" by (rule length3_obtain)
  then show ?thesis by (simp add: expandShorthand_def)
next
  case False
  then have "expandShorthand s = s" by (simp add: expandShorthand_cases)
  with False show ?thesis by simp
qed

lemma hexToRgb_accepts_iff:
  "hexToRgb (JStr s) \<noteq> None \<longleftrightarrow>
     (length (remove1 (CHR ''#'') s) = 3 \<or> length (remove1 (CHR ''#'') s) = 6) \<and>
     list_all hexDigit (remove1 (CHR ''#'') s)"
  using expandShorthand_accept [of "remove1 (CHR ''#'') s"]
  by (simp add: hexToRgb_string Let_def)

lemma hexDigit_not_hash: "hexDigit c \<Longrightarrow> CHR ''#'' \<noteq> c"
  by (auto simp: hexDigit_def)

lemma hexToRgb_3:
  "hexDigit c1 \<Longrightarrow> hexDigit c2 \<Longrightarrow> hexDigit c3 \<Longrightarrow>
   hexToRgb (JStr [c1, c2, c3]) = Some \<lparr>r = 17 * hexVal c1, g = 17 * hexVal c2, b = 17 * hexVal c3\<rparr>"
  by (simp add: hexToRgb_string expandShorthand_def parseInt16_pair hexDigit_not_hash)

lemma hexToRgb_6:
  "hexDigit c1 \<Longrightarrow> hexDigit c2 \<Longrightarrow> hexDigit c3 \<Longrightarrow> hexDigit c4 \<Longrightarrow> hexDigit c5 \<Longrightarrow> hexDigit c6 \<Longrightarrow>
   hexToRgb (JStr [c1, c2, c3, c4, c5, c6]) =
     Some \<lparr>r = 16 * hexVal c1 + hexVal c2, g = 16 * hexVal c3 + hexVal c4, b = 16 * hexVal c5 + hexVal c6\<rparr>"
  by (simp add: hexToRgb_string expandShorthand_def parseInt16_pair hexDigit_not_hash)

lemma hexToRgb_hash:
  "CHR ''#'' \<notin> set s \<Longrightarrow> hexToRgb (JStr (CHR ''#'' # s)) = hexToRgb (JStr s)"
  by (simp add: hexToRgb_string remove1_idem)

lemma hexChars_digit:
  "k < 16 \<Longrightarrow> hexDigit (''0123456789abcdef'' ! k) \<and> hexVal (''0123456789abcdef'' ! k) = int k"
proof -
  assume "k < 16"
  then have "k = 0 \<or> k = 1 \<or> k = 2 \<or> k = 3 \<or> k = 4 \<or> k = 5 \<or> k = 6 \<or> k = 7
    \<or> k = 8 \<or> k = 9 \<or> k = 10 \<or> k = 11 \<or> k = 12 \<or> k = 13 \<or> k = 14 \<or> k = 15"
    by arith
  then show ?thesis
    by (elim disjE) (simp_all add: hexDigit_def hexVal_def)
qed

lemma hexPair_digits:
  assumes "0 \<le> n" "n \<le> 255"
  shows "\<exists>d1 d2. hexPair n = [d1, d2] \<and> hexDigit d1 \<and> hexDigit d2 \<and> 16 * hexVal d1 + hexVal d2 = n"
proof -
  have a: "nat (n div 16) < 16" using assms by simp
  have b: "nat (n mod 16) < 16" using assms by simp
  have "0 \<le> n div 16" using assms by (simp add: pos_imp_zdiv_nonneg_iff)
  then have "16 * int (nat (n div 16)) + int (nat (n mod 16)) = n" by simp
  with hexChars_digit [OF a] hexChars_digit [OF b] show ?thesis
    by (simp add: hexPair_def)
qed

lemma hexToRgb_components:
  assumes "hexToRgb v = Some c"
  shows "0 \<le> r c \<and> r c \<le> 255 \<and> 0 \<le> g c \<and> g c \<le> 255 \<and> 0 \<le> b c \<and> b c \<le> 255"
proof -
  from assms obtain s where v: "v = JStr s"
    using hexToRgb_not_string [of v] by fastforce
  define full where "full = expandShorthand (remove1 (CHR ''#'') s)"
  from assms v have len: "length full = 6" and hexd: "list_all hexDigit full"
    and c: "c = \<lparr>r = parseInt16 [full ! 0, full ! 1], g = parseInt16 [full ! 2, full ! 3],
                    b = parseInt16 [full ! 4, full ! 5]\<rparr>"
    by (auto simp: hexToRgb_string full_def Let_def split: if_splits)
  from hexd len have "hexDigit (full ! 0)" "hexDigit (full ! 1)" "hexDigit (full ! 2)"
    "hexDigit (full ! 3)" "hexDigit (full ! 4)" "hexDigit (full ! 5)"
    by (simp_all add: length6_all)
  then have "0 \<le> hexVal (full ! 0) \<and> hexVal (full ! 0) \<le> 15"
     "0 \<le> hexVal (full ! 1) \<and> hexVal (full ! 1) \<le> 15"
     "0 \<le> hexVal (full ! 2) \<and> hexVal (full ! 2) \<le> 15"
     "0 \<le> hexVal (full ! 3) \<and> hexVal (full ! 3) \<le> 15"
     "0 \<le> hexVal (full ! 4) \<and> hexVal (full ! 4) \<le> 15"
     "0 \<le> hexVal (full ! 5) \<and> hexVal (full ! 5) \<le> 15"
    by (simp_all add: hexVal_range)
  then show ?thesis by (simp add: c parseInt16_pair)
qed

lemma hexToRgb_rgbToHex:
  assumes "0 \<le> r c \<and> r c \<le> 255 \<and> 0 \<le> g c \<and> g c \<le> 255 \<and> 0 \<le> b c \<and> b c \<le> 255"
  shows "hexToRgb (JStr (rgbToHex c)) = Some c"
proof -
  from assms obtain d1 d2 where r: "hexPair (r c) = [d1, d2]" "hexDigit d1" "hexDigit d2"
    "16 * hexVal d1 + hexVal d2 = r c" using hexPair_digits [of "r c"] by auto
  from assms obtain d3 d4 where g: "hexPair (g c) = [d3, d4]" "hexDigit d3" "hexDigit d4"
    "16 * hexVal d3 + hexVal d4 = g c" using hexPair_digits [of "g c"] by auto
  from assms obtain d5 d6 where b: "hexPair (b c) = [d5, d6]" "hexDigit d5" "hexDigit d6"
    "16 * hexVal d5 + hexVal d6 = b c" using hexPair_digits [of "b c"] by auto
  have "CHR ''#'' \<notin> set [d1, d2, d3, d4, d5, d6]"
    using r g b by (auto dest: hexDigit_not_hash)
  then have "hexToRgb (JStr (rgbToHex c)) = hexToRgb (JStr [d1, d2, d3, d4, d5, d6])"
    unfolding rgbToHex_def using r g b hexToRgb_hash [of "[d1, d2, d3, d4, d5, d6]"] by simp
  also have "\<dots> = Some c" using r g b by (simp add: hexToRgb_6)
  finally show ?thesis .
qed

section \<open>Lemmas about decimal numerals\<close>

lemma digit_chars_inj:
  "a < 10 \<Longrightarrow> c < 10 \<Longrightarrow> ''0123456789'' ! a = ''0123456789'' ! c \<Longrightarrow> a = c"
proof -
  have d: "distinct ''0123456789''" by simp
  have l: "length ''0123456789'' = 10" by simp
  show "a < 10 \<Longrightarrow> c < 10 \<Longrightarrow> ''0123456789'' ! a = ''0123456789'' ! c \<Longrightarrow> a = c"
    using d l by (metis nth_eq_iff_index_eq)
qed

lemma digits_length_ge2: "10 \<le> n \<Longrightarrow> 2 \<le> length (digits n)"
  by (subst digits.simps, subst digits.simps) (simp)

lemma digits_inj: "digits n = digits m \<Longrightarrow> n = m"
proof (induction n arbitrary: m rule: digits.induct)
  case (1 n)
  show ?case
  proof (cases "n < 10")
    case True
    then have dn: "digits n = [''0123456789'' ! n]" by (simp add: digits.simps)
    show ?thesis
    proof (cases "m < 10")
      case mT: True
      then have "digits m = [''0123456789'' ! m]" by (simp add: digits.simps)
      with dn "1.prems" have "''0123456789'' ! n = ''0123456789'' ! m" by simp
      with True mT show ?thesis by (rule digit_chars_inj)
    next
      case False
      then have "2 \<le> length (digits m)" by (simp add: digits_length_ge2)
      with dn "1.prems" show ?thesis by simp
    qed
  next
    case False
    then have dn: "digits n = digits (n div 10) @ [''0123456789'' ! (n mod 10)]"
      by (simp add: digits.simps)
    show ?thesis
    proof (cases "m < 10")
      case True
      then have "digits m = [''0123456789'' ! m]" by (simp add: digits.simps)
      moreover from False have "2 \<le> length (digits n)" by (simp add: digits_length_ge2)
      ultimately show ?thesis using "1.prems" by simp
    next
      case mF: False
      then have dm: "digits m = digits (m div 10) @ [''0123456789'' ! (m mod 10)]"
        by (simp add: digits.simps)
      from dn dm "1.prems" have e1: "digits (n div 10) = digits (m div 10)"
        and e2: "''0123456789'' ! (n mod 10) = ''0123456789'' ! (m mod 10)" by simp_all
      from "1.IH" [OF False e1] have q: "n div 10 = m div 10" .
      have "n mod 10 = m mod 10" using e2 by (intro digit_chars_inj) simp_all
      with q show ?thesis by (metis div_mult_mod_eq)
    qed
  qed
qed

lemma listColorName_inj: "listColorName i = listColorName j \<Longrightarrow> i = j"
  using digits_inj [of "Suc i" "Suc j"]
  by (simp add: listColorName_def numToString_def nat_add_distrib)

section \<open>Lemmas about the variable map\<close>

lemma listColorName_literal: "listColorName i = ''--theme-list-color-'' @ digits (Suc i)"
  by (simp add: listColorName_def numToString_def nat_add_distrib)

lemma forEachListColor_other:
  "(\<And>i. k \<noteq> listColorName i) \<Longrightarrow> forEachListColor variables n colors k = variables k"
  by (induction colors arbitrary: variables n) simp_all

lemma forEachListColor_before:
  "(\<And>i. i < length colors \<Longrightarrow> k \<noteq> listColorName (n + i)) \<Longrightarrow>
   forEachListColor variables n colors k = variables k"
proof (induction colors arbitrary: variables n)
  case Nil
  then show ?case by simp
next
  case (Cons color rest)
  have "k \<noteq> listColorName n" using Cons.prems [of 0] by simp
  moreover have "forEachListColor (variables(listColorName n \<mapsto> color)) (Suc n) rest k
      = (variables(listColorName n \<mapsto> color)) k"
  proof (rule Cons.IH)
    fix i assume "i < length rest"
    then show "k \<noteq> listColorName (Suc n + i)" using Cons.prems [of "Suc i"] by simp
  qed
  ultimately show ?case by simp
qed

lemma forEachListColor_at:
  "i < length colors \<Longrightarrow>
   forEachListColor variables n colors (listColorName (n + i)) = Some (colors ! i)"
proof (induction colors arbitrary: variables n i)
  case Nil
  then show ?case by simp
next
  case (Cons color rest)
  show ?case
  proof (cases i)
    case 0
    have "forEachListColor (variables(listColorName n \<mapsto> color)) (Suc n) rest (listColorName n)
        = (variables(listColorName n \<mapsto> color)) (listColorName n)"
      by (rule forEachListColor_before) (auto dest: listColorName_inj)
    with 0 show ?thesis by simp
  next
    case (Suc j)
    with Cons.prems have j: "j < length rest" by simp
    have "forEachListColor variables n (color # rest) (listColorName (n + i))
        = forEachListColor (variables(listColorName n \<mapsto> color)) (Suc n) rest
            (listColorName (Suc n + j))"
      using Suc by simp
    also have "\<dots> = Some (rest ! j)" using j by (rule Cons.IH)
    also have "\<dots> = Some ((color # rest) ! i)" using Suc by simp
    finally show ?thesis .
  qed
qed

lemma listVariables_other:
  "(\<And>i. k \<noteq> listColorName i) \<Longrightarrow> listVariables colorTheme variables k = variables k"
  by (simp add: listVariables_def forEachListColor_other split: jsval.split)

lemma alphaVariables_other:
  "k \<noteq> ''--theme-primary-rgb'' \<Longrightarrow> k \<noteq> ''--theme-primary-15'' \<Longrightarrow>
   k \<noteq> ''--theme-primary-20'' \<Longrightarrow> k \<noteq> ''--theme-primary-25'' \<Longrightarrow>
   k \<noteq> ''--theme-primary-40'' \<Longrightarrow> k \<noteq> ''--theme-primary-60'' \<Longrightarrow>
   alphaVariables colorTheme variables k = variables k"
  by (simp add: alphaVariables_def split: option.split)

lemma alphaVariables_invalid:
  "hexToRgb (get colorTheme ''primary'') = None \<Longrightarrow> alphaVariables colorTheme variables = variables"
  by (simp add: alphaVariables_def)

lemma alpha_names_not_list:
  "''--theme-primary-rgb'' \<noteq> listColorName i" "''--theme-primary-15'' \<noteq> listColorName i"
  "''--theme-primary-20'' \<noteq> listColorName i" "''--theme-primary-25'' \<noteq> listColorName i"
  "''--theme-primary-40'' \<noteq> listColorName i" "''--theme-primary-60'' \<noteq> listColorName i"
  by (simp_all add: listColorName_literal)

lemma fixedVariables_alpha_names:
  "fixedVariables theme ''--theme-primary-rgb'' = None"
  "fixedVariables theme ''--theme-primary-15'' = None"
  "fixedVariables theme ''--theme-primary-20'' = None"
  "fixedVariables theme ''--theme-primary-25'' = None"
  "fixedVariables theme ''--theme-primary-40'' = None"
  "fixedVariables theme ''--theme-primary-60'' = None"
  by (simp_all add: fixedVariables_def)

lemma fixedVariables_list_names: "fixedVariables theme (listColorName i) = None"
  by (simp add: fixedVariables_def listColorName_literal)

lemma getDarkModeColors_other:
  "k \<noteq> ''primary'' \<Longrightarrow> k \<noteq> ''primaryHover'' \<Longrightarrow> k \<noteq> ''primaryDark'' \<Longrightarrow>
   getDarkModeColors t k = darkPalette t k"
  by (simp add: getDarkModeColors_def Let_def split: option.split)

lemma darkPalette_primary_family:
  "darkPalette t ''primary'' = t ''primary''"
  "darkPalette t ''primaryHover'' = t ''primaryHover''"
  "darkPalette t ''primaryDark'' = t ''primaryDark''"
  by (simp_all add: darkPalette_def)

lemma getDarkModeColors_unchanged:
  "hexToRgb (get t ''primary'') = None \<or>
   (\<exists>c. hexToRgb (get t ''primary'') = Some c \<and> \<not> brightness c < 128) \<Longrightarrow>
   getDarkModeColors t k = darkPalette t k"
  by (auto simp: getDarkModeColors_def Let_def)

lemma getDarkModeColors_brightened:
  assumes "hexToRgb (get t ''primary'') = Some c" "brightness c < 128"
  shows "getDarkModeColors t =
    (darkPalette t)
      (''primary'' \<mapsto> JStr (rgbString (min 255 (r c + 80)) (min 255 (g c + 80)) (min 255 (b c + 80))),
       ''primaryHover'' \<mapsto>
          JStr (rgbString (min 255 (min 255 (r c + 80) + 20)) (min 255 (min 255 (g c + 80) + 20))
                  (min 255 (min 255 (b c + 80) + 20))),
       ''primaryDark'' \<mapsto>
          JStr (rgbString (min 255 (min 255 (r c + 80) - 20)) (min 255 (min 255 (g c + 80) - 20))
                  (min 255 (min 255 (b c + 80) - 20))))"
  using assms hexToRgb_Some_truthy [OF assms(1)]
  by (simp add: getDarkModeColors_def Let_def)

lemma computeThemeVariables_fixed:
  assumes "\<And>i. k \<noteq> listColorName i"
    and "k \<noteq> ''--theme-primary-rgb''" "k \<noteq> ''--theme-primary-15''"
    "k \<noteq> ''--theme-primary-20''" "k \<noteq> ''--theme-primary-25''"
    "k \<noteq> ''--theme-primary-40''" "k \<noteq> ''--theme-primary-60''"
  shows "computeThemeVariables (Some t) d k = fixedVariables (if d then getDarkModeColors t else t) k"
  using assms
  by (simp add: computeThemeVariables_def Let_def alphaVariables_other listVariables_other)

lemmas hex_eval = hexToRgb_string expandShorthand_def hexDigit_def hexVal_def parseInt16_def

lemma computeThemeVariables_invalid:
  "hexToRgb (get t ''primary'') = None \<Longrightarrow> (\<And>i. k \<noteq> listColorName i) \<Longrightarrow>
   computeThemeVariables (Some t) d k = fixedVariables (if d then getDarkModeColors t else t) k"
  by (simp add: computeThemeVariables_def Let_def alphaVariables_invalid listVariables_other)

lemma map_le_lookup: "(\<And>k v. m1 k = Some v \<Longrightarrow> m2 k = Some v) \<Longrightarrow> m1 \<subseteq>\<^sub>m m2"
  by (auto simp: map_le_def)

lemma alphaVariables_valid:
  assumes "hexToRgb (get colorTheme ''primary'') = Some c"
  shows "alphaVariables colorTheme variables =
    variables
      (''--theme-primary-rgb'' \<mapsto>
         JStr (numToString (r c) @ '', '' @ numToString (g c) @ '', '' @ numToString (b c)),
       ''--theme-primary-15'' \<mapsto> JStr (rgbaString (r c) (g c) (b c) ''0.15''),
       ''--theme-primary-20'' \<mapsto> JStr (rgbaString (r c) (g c) (b c) ''0.20''),
       ''--theme-primary-25'' \<mapsto> JStr (rgbaString (r c) (g c) (b c) ''0.25''),
       ''--theme-primary-40'' \<mapsto> JStr (rgbaString (r c) (g c) (b c) ''0.40''),
       ''--theme-primary-60'' \<mapsto> JStr (rgbaString (r c) (g c) (b c) ''0.60''))"
  using assms hexToRgb_Some_truthy [OF assms] by (simp add: alphaVariables_def)

lemma computeThemeVariables_some:
  "computeThemeVariables (Some t) d =
     alphaVariables t (listVariables t (fixedVariables (if d then getDarkModeColors t else t)))"
  by (simp add: computeThemeVariables_def Let_def)

lemma list_names_not_alpha:
  "listColorName i \<noteq> ''--theme-primary-rgb''" "listColorName i \<noteq> ''--theme-primary-15''"
  "listColorName i \<noteq> ''--theme-primary-20''" "listColorName i \<noteq> ''--theme-primary-25''"
  "listColorName i \<noteq> ''--theme-primary-40''" "listColorName i \<noteq> ''--theme-primary-60''"
  by (simp_all add: listColorName_literal)

lemma computeThemeVariables_list_name:
  "t ''listColors'' = Some (JArr colors) \<Longrightarrow>
   computeThemeVariables (Some t) d (listColorName j) =
     forEachListColor (fixedVariables (if d then getDarkModeColors t else t)) 0 colors
       (listColorName j)"
  by (simp add: computeThemeVariables_some alphaVariables_other list_names_not_alpha
      listVariables_def get_def)

lemma fixed_names_not_list:
  "''--theme-blockquote-border'' \<noteq> listColorName i" "''--theme-hr-color'' \<noteq> listColorName i"
  by (simp_all add: listColorName_literal)

section \<open>The properties of the specification\<close>

text \<open>
  C4. For every value of the mode flag, \<^const>\<open>computeThemeVariables\<close> applied to an absent
  theme returns the empty mapping; the model has no error value because the source has
  no path that throws.
\<close>

theorem computeThemeVariables_absent_theme:
  "computeThemeVariables None isDarkMode = Map.empty"
  by (simp add: computeThemeVariables_def)

text \<open>
  C7. A three-digit input, with or without a leading \<^verbatim>\<open>#\<close>, parses to the same triple as
  the six-digit string in which every digit is doubled; upper-case and lower-case digits
  are accepted alike. \<^verbatim>\<open>#0AB\<close> and \<^verbatim>\<open>#00AABB\<close> both give \<open>(0, 170, 187)\<close>.
\<close>

theorem hexToRgb_shorthand:
  assumes "hexDigit c1" "hexDigit c2" "hexDigit c3"
  shows "hexToRgb (JStr [c1, c2, c3]) = hexToRgb (JStr [c1, c1, c2, c2, c3, c3])
    \<and> hexToRgb (JStr (CHR ''#'' # [c1, c2, c3])) = hexToRgb (JStr (CHR ''#'' # [c1, c1, c2, c2, c3, c3]))
    \<and> hexToRgb (JStr (CHR ''#'' # [c1, c2, c3])) = hexToRgb (JStr [c1, c2, c3])
    \<and> hexToRgb (JStr [c1, c2, c3]) \<noteq> None
    \<and> hexToRgb (JStr ''#0AB'') = Some \<lparr>r = 0, g = 170, b = 187\<rparr>
    \<and> hexToRgb (JStr ''#00AABB'') = Some \<lparr>r = 0, g = 170, b = 187\<rparr>
    \<and> hexToRgb (JStr ''#0ab'') = Some \<lparr>r = 0, g = 170, b = 187\<rparr>"
proof -
  have short: "hexToRgb (JStr [c1, c2, c3])
      = Some \<lparr>r = 17 * hexVal c1, g = 17 * hexVal c2, b = 17 * hexVal c3\<rparr>"
    using assms by (rule hexToRgb_3)
  have long: "hexToRgb (JStr [c1, c1, c2, c2, c3, c3])
      = Some \<lparr>r = 16 * hexVal c1 + hexVal c1, g = 16 * hexVal c2 + hexVal c2,
               b = 16 * hexVal c3 + hexVal c3\<rparr>"
    using assms by (simp add: hexToRgb_6)
  have h3: "hexToRgb (JStr (CHR ''#'' # [c1, c2, c3])) = hexToRgb (JStr [c1, c2, c3])"
    using assms by (intro hexToRgb_hash) (auto dest: hexDigit_not_hash)
  have h6: "hexToRgb (JStr (CHR ''#'' # [c1, c1, c2, c2, c3, c3]))
      = hexToRgb (JStr [c1, c1, c2, c2, c3, c3])"
    using assms by (intro hexToRgb_hash) (auto dest: hexDigit_not_hash)
  have e1: "hexToRgb (JStr ''#0AB'') = Some \<lparr>r = 0, g = 170, b = 187\<rparr>"
    by (simp add: hexToRgb_string expandShorthand_def hexDigit_def hexVal_def parseInt16_def)
  have e2: "hexToRgb (JStr ''#00AABB'') = Some \<lparr>r = 0, g = 170, b = 187\<rparr>"
    by (simp add: hexToRgb_string expandShorthand_def hexDigit_def hexVal_def parseInt16_def)
  have e3: "hexToRgb (JStr ''#0ab'') = Some \<lparr>r = 0, g = 170, b = 187\<rparr>"
    by (simp add: hexToRgb_string expandShorthand_def hexDigit_def hexVal_def parseInt16_def)
  show ?thesis using short long h3 h6 e1 e2 e3 by simp
qed

theorem hexToRgb_shorthand_witness:
  "hexDigit CHR ''0'' \<and> hexDigit CHR ''A'' \<and> hexDigit CHR ''B''
   \<and> hexToRgb (JStr ''0AB'') = hexToRgb (JStr ''00AABB'')
   \<and> hexToRgb (JStr ''#0AB'') = hexToRgb (JStr ''#00AABB'')
   \<and> hexToRgb (JStr ''0AB'') \<noteq> None"
proof -
  have h: "hexDigit CHR ''0''" "hexDigit CHR ''A''" "hexDigit CHR ''B''"
    by (simp_all add: hexDigit_def)
  show ?thesis using h hexToRgb_shorthand [OF h] by blast
qed

text \<open>
  C8. Every triple that \<^const>\<open>hexToRgb\<close> returns has its three components between 0 and
  255, and parsing its six-digit form \<^verbatim>\<open>#rrggbb\<close> gives the same triple again: the
  lower-case form \<^const>\<open>rgbToHex\<close> writes, and any other six digits, of either case, that
  spell the three components.
\<close>

theorem hexToRgb_round_trip:
  assumes "hexToRgb h = Some c"
  shows "0 \<le> r c \<and> r c \<le> 255 \<and> 0 \<le> g c \<and> g c \<le> 255 \<and> 0 \<le> b c \<and> b c \<le> 255
    \<and> hexToRgb (JStr (rgbToHex c)) = Some c
    \<and> (\<forall>d1 d2 d3 d4 d5 d6.
          hexDigit d1 \<and> hexDigit d2 \<and> hexDigit d3 \<and> hexDigit d4 \<and> hexDigit d5 \<and> hexDigit d6
          \<and> 16 * hexVal d1 + hexVal d2 = r c \<and> 16 * hexVal d3 + hexVal d4 = g c
          \<and> 16 * hexVal d5 + hexVal d6 = b c \<longrightarrow>
          hexToRgb (JStr (CHR ''#'' # [d1, d2, d3, d4, d5, d6])) = Some c)"
proof -
  have range: "0 \<le> r c \<and> r c \<le> 255 \<and> 0 \<le> g c \<and> g c \<le> 255 \<and> 0 \<le> b c \<and> b c \<le> 255"
    using assms by (rule hexToRgb_components)
  then have lower: "hexToRgb (JStr (rgbToHex c)) = Some c" by (rule hexToRgb_rgbToHex)
  have any: "hexToRgb (JStr (CHR ''#'' # [d1, d2, d3, d4, d5, d6])) = Some c"
    if d: "hexDigit d1" "hexDigit d2" "hexDigit d3" "hexDigit d4" "hexDigit d5" "hexDigit d6"
      and v: "16 * hexVal d1 + hexVal d2 = r c" "16 * hexVal d3 + hexVal d4 = g c"
        "16 * hexVal d5 + hexVal d6 = b c"
    for d1 d2 d3 d4 d5 d6
  proof -
    have "CHR ''#'' \<notin> set [d1, d2, d3, d4, d5, d6]" using d by (auto dest: hexDigit_not_hash)
    then have "hexToRgb (JStr (CHR ''#'' # [d1, d2, d3, d4, d5, d6]))
        = hexToRgb (JStr [d1, d2, d3, d4, d5, d6])"
      by (rule hexToRgb_hash)
    also have "\<dots> = Some c" using d v by (simp add: hexToRgb_6)
    finally show ?thesis .
  qed
  show ?thesis using range lower any by blast
qed

theorem hexToRgb_round_trip_witness:
  "hexToRgb (JStr ''00A86B'') = Some \<lparr>r = 0, g = 168, b = 107\<rparr>
   \<and> rgbToHex \<lparr>r = 0, g = 168, b = 107\<rparr> = ''#00a86b''
   \<and> hexToRgb (JStr ''#00a86b'') = Some \<lparr>r = 0, g = 168, b = 107\<rparr>
   \<and> hexToRgb (JStr ''#00A86b'') = Some \<lparr>r = 0, g = 168, b = 107\<rparr>"
proof -
  have p: "hexToRgb (JStr ''00A86B'') = Some \<lparr>r = 0, g = 168, b = 107\<rparr>"
    by (simp add: hexToRgb_string expandShorthand_def hexDigit_def hexVal_def parseInt16_def)
  have s: "rgbToHex \<lparr>r = 0, g = 168, b = 107\<rparr> = ''#00a86b''"
    by (simp add: rgbToHex_def hexPair_def)
  have d: "hexDigit CHR ''0''" "hexDigit CHR ''A''" "hexDigit CHR ''8''" "hexDigit CHR ''6''"
    "hexDigit CHR ''b''"
    by (simp_all add: hexDigit_def)
  have v: "16 * hexVal CHR ''0'' + hexVal CHR ''0'' = 0" "16 * hexVal CHR ''A'' + hexVal CHR ''8'' = 168"
    "16 * hexVal CHR ''6'' + hexVal CHR ''b'' = 107"
    by (simp_all add: hexVal_def)
  from hexToRgb_round_trip [OF p]
  have "hexToRgb (JStr (rgbToHex \<lparr>r = 0, g = 168, b = 107\<rparr>)) = Some \<lparr>r = 0, g = 168, b = 107\<rparr>"
    and "hexToRgb (JStr ''#00A86b'') = Some \<lparr>r = 0, g = 168, b = 107\<rparr>"
    using d v by simp_all
  then show ?thesis using p s by simp
qed

text \<open>
  C3 (as the code has it). \<^const>\<open>hexToRgb\<close> removes the first \<^verbatim>\<open>#\<close> of the string, wherever
  it stands, and accepts exactly the strings whose remainder is three or six hexadecimal
  digits (three digits are expanded to six): a remainder of any other length, or with
  any other character in it, a second \<^verbatim>\<open>#\<close> included, gives the invalid result. A string
  without \<^verbatim>\<open>#\<close> parses the same with a \<^verbatim>\<open>#\<close> put in front of it.
\<close>

theorem hexToRgb_accepts_exactly:
  "(hexToRgb (JStr s) \<noteq> None \<longleftrightarrow>
      (length (remove1 (CHR ''#'') s) = 3 \<or> length (remove1 (CHR ''#'') s) = 6) \<and>
      list_all hexDigit (remove1 (CHR ''#'') s))
   \<and> (CHR ''#'' \<notin> set s \<longrightarrow> hexToRgb (JStr (CHR ''#'' # s)) = hexToRgb (JStr s))"
  using hexToRgb_accepts_iff [of s] hexToRgb_hash [of s] by blast

theorem hexToRgb_accepts_exactly_witness:
  "hexToRgb (JStr ''#00A86B'') \<noteq> None \<and> hexToRgb (JStr ''00A86B'') \<noteq> None
   \<and> hexToRgb (JStr ''#00A86B'') = hexToRgb (JStr ''00A86B'')
   \<and> hexToRgb (JStr ''rgb(0, 0, 0)'') = None \<and> hexToRgb (JStr ''red'') = None
   \<and> hexToRgb (JStr ''##123456'') = None"
proof -
  have a: "CHR ''#'' \<notin> set ''00A86B''" by simp
  have b: "remove1 (CHR ''#'') ''rgb(0, 0, 0)'' = ''rgb(0, 0, 0)''"
    "remove1 (CHR ''#'') ''red'' = ''red''" "remove1 (CHR ''#'') ''##123456'' = ''#123456''"
    "remove1 (CHR ''#'') ''#00A86B'' = ''00A86B''" "remove1 (CHR ''#'') ''00A86B'' = ''00A86B''"
    by simp_all
  have c: "hexDigit CHR ''0''" "hexDigit CHR ''A''" "hexDigit CHR ''8''" "hexDigit CHR ''6''"
    "hexDigit CHR ''B''" "\<not> hexDigit CHR ''r''"
    by (simp_all add: hexDigit_def)
  show ?thesis
    using a hexToRgb_accepts_exactly [of "''00A86B''"] hexToRgb_accepts_exactly [of "''#00A86B''"]
      hexToRgb_accepts_exactly [of "''rgb(0, 0, 0)''"] hexToRgb_accepts_exactly [of "''red''"]
      hexToRgb_accepts_exactly [of "''##123456''"]
    unfolding b using c by auto
qed

theorem hexToRgb_inner_hash_counterexample:
  "hexToRgb (JStr ''12#3456'') = Some \<lparr>r = 18, g = 52, b = 86\<rparr>"
  by (simp add: hex_eval)

text \<open>
  C9. An input that is not a string (\<^verbatim>\<open>undefined\<close> and \<^verbatim>\<open>null\<close> among them) gives the
  invalid result, and so do \<^verbatim>\<open>"not-a-color"\<close>, the empty string and \<^verbatim>\<open>"#12345"\<close>. When the
  theme's \<^verbatim>\<open>primary\<close> is invalid, \<^const>\<open>computeThemeVariables\<close> still returns its map: all
  the fixed variables are in it, and none of the six entries derived from the triple.
\<close>

theorem hexToRgb_invalid_input:
  "((\<forall>s. v \<noteq> JStr s) \<longrightarrow> hexToRgb v = None)
   \<and> hexToRgb JUndefined = None \<and> hexToRgb JNull = None
   \<and> hexToRgb (JStr ''not-a-color'') = None \<and> hexToRgb (JStr '''') = None
   \<and> hexToRgb (JStr ''#12345'') = None
   \<and> (hexToRgb (get t ''primary'') = None \<longrightarrow>
        fixedVariables (if d then getDarkModeColors t else t) \<subseteq>\<^sub>m computeThemeVariables (Some t) d
        \<and> computeThemeVariables (Some t) d ''--theme-primary-rgb'' = None
        \<and> computeThemeVariables (Some t) d ''--theme-primary-15'' = None
        \<and> computeThemeVariables (Some t) d ''--theme-primary-20'' = None
        \<and> computeThemeVariables (Some t) d ''--theme-primary-25'' = None
        \<and> computeThemeVariables (Some t) d ''--theme-primary-40'' = None
        \<and> computeThemeVariables (Some t) d ''--theme-primary-60'' = None)"
proof -
  have n: "(\<forall>s. v \<noteq> JStr s) \<longrightarrow> hexToRgb v = None"
    using hexToRgb_not_string [of v] by blast
  have e: "hexToRgb JUndefined = None" "hexToRgb JNull = None" "hexToRgb (JStr '''') = None"
    by (simp_all add: hexToRgb_def)
  have f: "hexToRgb (JStr ''not-a-color'') = None" "hexToRgb (JStr ''#12345'') = None"
    by (simp_all add: hex_eval)
  have g: "fixedVariables (if d then getDarkModeColors t else t) \<subseteq>\<^sub>m computeThemeVariables (Some t) d"
    if inv: "hexToRgb (get t ''primary'') = None"
  proof (rule map_le_lookup)
    fix k v' assume k: "fixedVariables (if d then getDarkModeColors t else t) k = Some v'"
    have "\<And>i. k \<noteq> listColorName i" using k by (auto simp: fixedVariables_list_names)
    then have "computeThemeVariables (Some t) d k = fixedVariables (if d then getDarkModeColors t else t) k"
      using inv by (rule computeThemeVariables_invalid [rotated])
    with k show "computeThemeVariables (Some t) d k = Some v'" by simp
  qed
  have h: "computeThemeVariables (Some t) d ''--theme-primary-rgb'' = None"
    "computeThemeVariables (Some t) d ''--theme-primary-15'' = None"
    "computeThemeVariables (Some t) d ''--theme-primary-20'' = None"
    "computeThemeVariables (Some t) d ''--theme-primary-25'' = None"
    "computeThemeVariables (Some t) d ''--theme-primary-40'' = None"
    "computeThemeVariables (Some t) d ''--theme-primary-60'' = None"
    if inv: "hexToRgb (get t ''primary'') = None"
    using inv
    by (simp_all add: computeThemeVariables_invalid alpha_names_not_list fixedVariables_alpha_names)
  show ?thesis using n e f g h by simp
qed

theorem hexToRgb_invalid_input_witness:
  "(\<forall>s. JNum 7 \<noteq> JStr s) \<and> hexToRgb (JNum 7) = None
   \<and> hexToRgb (get [''primary'' \<mapsto> JStr ''not-a-color''] ''primary'') = None
   \<and> computeThemeVariables (Some [''primary'' \<mapsto> JStr ''not-a-color'']) False ''--theme-primary''
       = Some (JStr ''not-a-color'')
   \<and> computeThemeVariables (Some [''primary'' \<mapsto> JStr ''not-a-color'']) False ''--theme-primary-rgb''
       = None"
proof -
  have a: "\<forall>s. JNum 7 \<noteq> JStr s" by simp
  have b: "hexToRgb (get [''primary'' \<mapsto> JStr ''not-a-color''] ''primary'') = None"
    by (simp add: get_def hex_eval)
  have c: "fixedVariables [''primary'' \<mapsto> JStr ''not-a-color''] ''--theme-primary''
      = Some (JStr ''not-a-color'')"
    by (simp add: fixedVariables_def get_def)
  from hexToRgb_invalid_input [of "JNum 7" "[''primary'' \<mapsto> JStr ''not-a-color'']" False] a b
  have "hexToRgb (JNum 7) = None"
    and le: "fixedVariables [''primary'' \<mapsto> JStr ''not-a-color'']
       \<subseteq>\<^sub>m computeThemeVariables (Some [''primary'' \<mapsto> JStr ''not-a-color'']) False"
    and "computeThemeVariables (Some [''primary'' \<mapsto> JStr ''not-a-color'']) False ''--theme-primary-rgb''
       = None"
    by simp_all
  moreover from le c
  have "computeThemeVariables (Some [''primary'' \<mapsto> JStr ''not-a-color'']) False ''--theme-primary''
       = Some (JStr ''not-a-color'')"
    by (auto simp: map_le_def dom_def)
  ultimately show ?thesis using a b by simp
qed

text \<open>
  C1. When the theme's \<^verbatim>\<open>primary\<close> parses to \<open>(r, g, b)\<close> with brightness
  \<open>(299 r + 587 g + 114 b) / 1000\<close> below 128, \<^const>\<open>getDarkModeColors\<close> sets \<^verbatim>\<open>primary\<close> to
  the \<^verbatim>\<open>rgb(...)\<close> string of the components plus 80, each capped at 255, \<^verbatim>\<open>primaryHover\<close> to
  those plus 20, capped at 255, and \<^verbatim>\<open>primaryDark\<close> to those minus 20 under the same upper
  cap and no lower one. When the brightness is 128 or more, or \<^verbatim>\<open>primary\<close> is absent or
  does not parse, the three fields are what the input theme carried. For \<^verbatim>\<open>#000000\<close> the
  three strings are \<^verbatim>\<open>rgb(80, 80, 80)\<close>, \<^verbatim>\<open>rgb(100, 100, 100)\<close> and \<^verbatim>\<open>rgb(60, 60, 60)\<close>.
\<close>

theorem getDarkModeColors_primary_brightening:
  "(\<forall>c. hexToRgb (get t ''primary'') = Some c
        \<and> (of_int (299 * r c + 587 * g c + 114 * b c) :: rat) / 1000 < 128 \<longrightarrow>
      getDarkModeColors t ''primary'' =
        Some (JStr (rgbString (min 255 (r c + 80)) (min 255 (g c + 80)) (min 255 (b c + 80))))
      \<and> getDarkModeColors t ''primaryHover'' =
        Some (JStr (rgbString (min 255 (min 255 (r c + 80) + 20))
                (min 255 (min 255 (g c + 80) + 20)) (min 255 (min 255 (b c + 80) + 20))))
      \<and> getDarkModeColors t ''primaryDark'' =
        Some (JStr (rgbString (min 255 (min 255 (r c + 80) - 20))
                (min 255 (min 255 (g c + 80) - 20)) (min 255 (min 255 (b c + 80) - 20)))))
   \<and> (t ''primary'' = None \<or> hexToRgb (get t ''primary'') = None
        \<or> (\<exists>c. hexToRgb (get t ''primary'') = Some c
              \<and> 128 \<le> (of_int (299 * r c + 587 * g c + 114 * b c) :: rat) / 1000) \<longrightarrow>
      getDarkModeColors t ''primary'' = t ''primary''
      \<and> getDarkModeColors t ''primaryHover'' = t ''primaryHover''
      \<and> getDarkModeColors t ''primaryDark'' = t ''primaryDark'')
   \<and> getDarkModeColors [''primary'' \<mapsto> JStr ''#000000''] ''primary''
        = Some (JStr ''rgb(80, 80, 80)'')
   \<and> getDarkModeColors [''primary'' \<mapsto> JStr ''#000000''] ''primaryHover''
        = Some (JStr ''rgb(100, 100, 100)'')
   \<and> getDarkModeColors [''primary'' \<mapsto> JStr ''#000000''] ''primaryDark''
        = Some (JStr ''rgb(60, 60, 60)'')"
proof -
  have bright: "brightness c = of_int (299 * r c + 587 * g c + 114 * b c) / 1000" for c
    by (simp add: brightness_def mult.commute)
  have absent: "hexToRgb (get t ''primary'') = None" if "t ''primary'' = None"
    using that by (simp add: get_def hexToRgb_def)
  have A: "getDarkModeColors t ''primary'' =
        Some (JStr (rgbString (min 255 (r c + 80)) (min 255 (g c + 80)) (min 255 (b c + 80))))
      \<and> getDarkModeColors t ''primaryHover'' =
        Some (JStr (rgbString (min 255 (min 255 (r c + 80) + 20))
                (min 255 (min 255 (g c + 80) + 20)) (min 255 (min 255 (b c + 80) + 20))))
      \<and> getDarkModeColors t ''primaryDark'' =
        Some (JStr (rgbString (min 255 (min 255 (r c + 80) - 20))
                (min 255 (min 255 (g c + 80) - 20)) (min 255 (min 255 (b c + 80) - 20))))"
    if "hexToRgb (get t ''primary'') = Some c"
      "(of_int (299 * r c + 587 * g c + 114 * b c) :: rat) / 1000 < 128" for c
  proof -
    from that have "brightness c < 128" by (simp add: bright)
    with that(1) show ?thesis by (simp add: getDarkModeColors_brightened)
  qed
  have B: "getDarkModeColors t ''primary'' = t ''primary''
      \<and> getDarkModeColors t ''primaryHover'' = t ''primaryHover''
      \<and> getDarkModeColors t ''primaryDark'' = t ''primaryDark''"
    if "t ''primary'' = None \<or> hexToRgb (get t ''primary'') = None
        \<or> (\<exists>c. hexToRgb (get t ''primary'') = Some c
              \<and> 128 \<le> (of_int (299 * r c + 587 * g c + 114 * b c) :: rat) / 1000)"
  proof -
    from that absent have "hexToRgb (get t ''primary'') = None \<or>
        (\<exists>c. hexToRgb (get t ''primary'') = Some c \<and> \<not> brightness c < 128)"
      by (auto simp: bright)
    then have "getDarkModeColors t k = darkPalette t k" for k
      by (rule getDarkModeColors_unchanged)
    then show ?thesis by (simp add: darkPalette_primary_family)
  qed
  have p: "hexToRgb (get [''primary'' \<mapsto> JStr ''#000000''] ''primary'') = Some \<lparr>r = 0, g = 0, b = 0\<rparr>"
    by (simp add: get_def hex_eval)
  have q: "brightness \<lparr>r = 0, g = 0, b = 0\<rparr> < 128" by (simp add: brightness_def)
  have C: "getDarkModeColors [''primary'' \<mapsto> JStr ''#000000''] ''primary''
        = Some (JStr ''rgb(80, 80, 80)'')"
    "getDarkModeColors [''primary'' \<mapsto> JStr ''#000000''] ''primaryHover''
        = Some (JStr ''rgb(100, 100, 100)'')"
    "getDarkModeColors [''primary'' \<mapsto> JStr ''#000000''] ''primaryDark''
        = Some (JStr ''rgb(60, 60, 60)'')"
    by (simp_all add: getDarkModeColors_brightened [OF p q] rgbString_def numToString_def digits.simps)
  show ?thesis using A B C by blast
qed

theorem getDarkModeColors_primary_brightening_witness:
  "hexToRgb (get [''primary'' \<mapsto> JStr ''#102030''] ''primary'') = Some \<lparr>r = 16, g = 32, b = 48\<rparr>
   \<and> (of_int (299 * 16 + 587 * 32 + 114 * 48) :: rat) / 1000 < 128
   \<and> getDarkModeColors [''primary'' \<mapsto> JStr ''#102030''] ''primary''
       = Some (JStr ''rgb(96, 112, 128)'')
   \<and> getDarkModeColors [''primary'' \<mapsto> JStr ''#102030''] ''primaryHover''
       = Some (JStr ''rgb(116, 132, 148)'')
   \<and> getDarkModeColors [''primary'' \<mapsto> JStr ''#102030''] ''primaryDark''
       = Some (JStr ''rgb(76, 92, 108)'')
   \<and> hexToRgb (get [''primary'' \<mapsto> JStr ''#FFFFFF''] ''primary'') = Some \<lparr>r = 255, g = 255, b = 255\<rparr>
   \<and> 128 \<le> (of_int (299 * 255 + 587 * 255 + 114 * 255) :: rat) / 1000
   \<and> getDarkModeColors [''primary'' \<mapsto> JStr ''#FFFFFF''] ''primary'' = Some (JStr ''#FFFFFF'')
   \<and> getDarkModeColors [''primary'' \<mapsto> JStr ''#FFFFFF''] ''primaryHover'' = None"
proof -
  have p: "hexToRgb (get [''primary'' \<mapsto> JStr ''#102030''] ''primary'') = Some \<lparr>r = 16, g = 32, b = 48\<rparr>"
    by (simp add: get_def hex_eval)
  have b1: "(of_int (299 * 16 + 587 * 32 + 114 * 48) :: rat) / 1000 < 128" by simp
  have q: "hexToRgb (get [''primary'' \<mapsto> JStr ''#FFFFFF''] ''primary'') = Some \<lparr>r = 255, g = 255, b = 255\<rparr>"
    by (simp add: get_def hex_eval)
  have b2: "128 \<le> (of_int (299 * 255 + 587 * 255 + 114 * 255) :: rat) / 1000" by simp
  have s: "rgbString 96 112 128 = ''rgb(96, 112, 128)''" "rgbString 116 132 148 = ''rgb(116, 132, 148)''"
    "rgbString 76 92 108 = ''rgb(76, 92, 108)''"
    by (simp_all add: rgbString_def numToString_def digits.simps)
  from getDarkModeColors_primary_brightening [of "[''primary'' \<mapsto> JStr ''#102030'']"] p b1
  have "getDarkModeColors [''primary'' \<mapsto> JStr ''#102030''] ''primary''
       = Some (JStr (rgbString 96 112 128))
   \<and> getDarkModeColors [''primary'' \<mapsto> JStr ''#102030''] ''primaryHover''
       = Some (JStr (rgbString 116 132 148))
   \<and> getDarkModeColors [''primary'' \<mapsto> JStr ''#102030''] ''primaryDark''
       = Some (JStr (rgbString 76 92 108))"
    by simp
  moreover from getDarkModeColors_primary_brightening [of "[''primary'' \<mapsto> JStr ''#FFFFFF'']"] q b2
  have "getDarkModeColors [''primary'' \<mapsto> JStr ''#FFFFFF''] ''primary'' = Some (JStr ''#FFFFFF'')
   \<and> getDarkModeColors [''primary'' \<mapsto> JStr ''#FFFFFF''] ''primaryHover'' = None"
    by simp
  ultimately show ?thesis using p b1 q b2 s by simp
qed

text \<open>
  C2. For a theme object and either mode flag, the RGB and alpha entries are computed
  from the \<^verbatim>\<open>primary\<close> of the theme that was passed in. When it parses to \<open>(r, g, b)\<close> the
  map holds \<^verbatim>\<open>--theme-primary-rgb\<close> with the text \<^verbatim>\<open>r, g, b\<close> and \<^verbatim>\<open>--theme-primary-15\<close>,
  \<^verbatim>\<open>-20\<close>, \<^verbatim>\<open>-25\<close>, \<^verbatim>\<open>-40\<close>, \<^verbatim>\<open>-60\<close> with \<^verbatim>\<open>rgba(r, g, b, 0.NN)\<close>; when it does not parse,
  none of the six names is in the map.
\<close>

theorem computeThemeVariables_alpha_entries:
  "(\<forall>c. hexToRgb (get t ''primary'') = Some c \<longrightarrow>
      computeThemeVariables (Some t) d ''--theme-primary-rgb'' =
        Some (JStr (numToString (r c) @ '', '' @ numToString (g c) @ '', '' @ numToString (b c)))
      \<and> computeThemeVariables (Some t) d ''--theme-primary-15'' =
        Some (JStr (''rgba('' @ numToString (r c) @ '', '' @ numToString (g c) @ '', ''
                      @ numToString (b c) @ '', 0.15)''))
      \<and> computeThemeVariables (Some t) d ''--theme-primary-20'' =
        Some (JStr (''rgba('' @ numToString (r c) @ '', '' @ numToString (g c) @ '', ''
                      @ numToString (b c) @ '', 0.20)''))
      \<and> computeThemeVariables (Some t) d ''--theme-primary-25'' =
        Some (JStr (''rgba('' @ numToString (r c) @ '', '' @ numToString (g c) @ '', ''
                      @ numToString (b c) @ '', 0.25)''))
      \<and> computeThemeVariables (Some t) d ''--theme-primary-40'' =
        Some (JStr (''rgba('' @ numToString (r c) @ '', '' @ numToString (g c) @ '', ''
                      @ numToString (b c) @ '', 0.40)''))
      \<and> computeThemeVariables (Some t) d ''--theme-primary-60'' =
        Some (JStr (''rgba('' @ numToString (r c) @ '', '' @ numToString (g c) @ '', ''
                      @ numToString (b c) @ '', 0.60)'')))
   \<and> (hexToRgb (get t ''primary'') = None \<longrightarrow>
      computeThemeVariables (Some t) d ''--theme-primary-rgb'' = None
      \<and> computeThemeVariables (Some t) d ''--theme-primary-15'' = None
      \<and> computeThemeVariables (Some t) d ''--theme-primary-20'' = None
      \<and> computeThemeVariables (Some t) d ''--theme-primary-25'' = None
      \<and> computeThemeVariables (Some t) d ''--theme-primary-40'' = None
      \<and> computeThemeVariables (Some t) d ''--theme-primary-60'' = None)"
proof (intro conjI allI impI)
  fix c assume p: "hexToRgb (get t ''primary'') = Some c"
  note v = computeThemeVariables_some alphaVariables_valid [OF p] rgbaString_def
  show "computeThemeVariables (Some t) d ''--theme-primary-rgb'' =
        Some (JStr (numToString (r c) @ '', '' @ numToString (g c) @ '', '' @ numToString (b c)))"
    by (simp add: v)
  show "computeThemeVariables (Some t) d ''--theme-primary-15'' =
        Some (JStr (''rgba('' @ numToString (r c) @ '', '' @ numToString (g c) @ '', ''
                      @ numToString (b c) @ '', 0.15)''))"
    by (simp add: v)
  show "computeThemeVariables (Some t) d ''--theme-primary-20'' =
        Some (JStr (''rgba('' @ numToString (r c) @ '', '' @ numToString (g c) @ '', ''
                      @ numToString (b c) @ '', 0.20)''))"
    by (simp add: v)
  show "computeThemeVariables (Some t) d ''--theme-primary-25'' =
        Some (JStr (''rgba('' @ numToString (r c) @ '', '' @ numToString (g c) @ '', ''
                      @ numToString (b c) @ '', 0.25)''))"
    by (simp add: v)
  show "computeThemeVariables (Some t) d ''--theme-primary-40'' =
        Some (JStr (''rgba('' @ numToString (r c) @ '', '' @ numToString (g c) @ '', ''
                      @ numToString (b c) @ '', 0.40)''))"
    by (simp add: v)
  show "computeThemeVariables (Some t) d ''--theme-primary-60'' =
        Some (JStr (''rgba('' @ numToString (r c) @ '', '' @ numToString (g c) @ '', ''
                      @ numToString (b c) @ '', 0.60)''))"
    by (simp add: v)
next
  assume inv: "hexToRgb (get t ''primary'') = None"
  note n = computeThemeVariables_invalid [OF inv] alpha_names_not_list fixedVariables_alpha_names
  show "computeThemeVariables (Some t) d ''--theme-primary-rgb'' = None" by (simp add: n)
  show "computeThemeVariables (Some t) d ''--theme-primary-15'' = None" by (simp add: n)
  show "computeThemeVariables (Some t) d ''--theme-primary-20'' = None" by (simp add: n)
  show "computeThemeVariables (Some t) d ''--theme-primary-25'' = None" by (simp add: n)
  show "computeThemeVariables (Some t) d ''--theme-primary-40'' = None" by (simp add: n)
  show "computeThemeVariables (Some t) d ''--theme-primary-60'' = None" by (simp add: n)
qed

theorem computeThemeVariables_alpha_entries_witness:
  "hexToRgb (get [''primary'' \<mapsto> JStr ''#000000''] ''primary'') = Some \<lparr>r = 0, g = 0, b = 0\<rparr>
   \<and> computeThemeVariables (Some [''primary'' \<mapsto> JStr ''#000000'']) True ''--theme-primary''
       = Some (JStr ''rgb(80, 80, 80)'')
   \<and> computeThemeVariables (Some [''primary'' \<mapsto> JStr ''#000000'']) True ''--theme-primary-rgb''
       = Some (JStr ''0, 0, 0'')
   \<and> computeThemeVariables (Some [''primary'' \<mapsto> JStr ''#000000'']) True ''--theme-primary-15''
       = Some (JStr ''rgba(0, 0, 0, 0.15)'')
   \<and> computeThemeVariables (Some [''primary'' \<mapsto> JStr ''#000000'']) True ''--theme-primary-60''
       = Some (JStr ''rgba(0, 0, 0, 0.60)'')
   \<and> hexToRgb (get [''primary'' \<mapsto> JStr ''#12345''] ''primary'') = None
   \<and> computeThemeVariables (Some [''primary'' \<mapsto> JStr ''#12345'']) False ''--theme-primary-rgb''
       = None
   \<and> computeThemeVariables (Some [''primary'' \<mapsto> JStr ''#12345'']) False ''--theme-primary-40''
       = None"
proof -
  have p: "hexToRgb (get [''primary'' \<mapsto> JStr ''#000000''] ''primary'') = Some \<lparr>r = 0, g = 0, b = 0\<rparr>"
    by (simp add: get_def hex_eval)
  have q: "hexToRgb (get [''primary'' \<mapsto> JStr ''#12345''] ''primary'') = None"
    by (simp add: get_def hex_eval)
  have z: "numToString 0 = ''0''" by (simp add: numToString_def digits.simps)
  have br: "brightness \<lparr>r = 0, g = 0, b = 0\<rparr> < 128" by (simp add: brightness_def)
  have dark: "computeThemeVariables (Some [''primary'' \<mapsto> JStr ''#000000'']) True ''--theme-primary''
       = Some (JStr ''rgb(80, 80, 80)'')"
    by (simp add: computeThemeVariables_fixed listColorName_literal fixedVariables_def get_def
        getDarkModeColors_brightened [OF p br] rgbString_def numToString_def digits.simps)
  show ?thesis
    using p q dark
      computeThemeVariables_alpha_entries [of "[''primary'' \<mapsto> JStr ''#000000'']" True]
      computeThemeVariables_alpha_entries [of "[''primary'' \<mapsto> JStr ''#12345'']" False]
    by (simp add: z)
qed

text \<open>
  C5. When the theme that was passed in has an array \<^verbatim>\<open>listColors\<close>, then in both modes the
  element at position \<open>i\<close> (from 0) is the value of \<^verbatim>\<open>--theme-list-color-{i+1}\<close>, unchanged
  whatever it is, and no such variable exists beyond the last element.
\<close>

theorem computeThemeVariables_list_colors:
  assumes "t ''listColors'' = Some (JArr colors)"
  shows "(i < length colors \<longrightarrow>
            computeThemeVariables (Some t) d (''--theme-list-color-'' @ numToString (int i + 1))
              = Some (colors ! i))
    \<and> (length colors \<le> i \<longrightarrow>
            computeThemeVariables (Some t) d (''--theme-list-color-'' @ numToString (int i + 1))
              = None)"
proof -
  have key: "''--theme-list-color-'' @ numToString (int i + 1) = listColorName i"
    by (simp add: listColorName_def)
  have name: "computeThemeVariables (Some t) d (listColorName i) =
     forEachListColor (fixedVariables (if d then getDarkModeColors t else t)) 0 colors
       (listColorName i)"
    using assms by (rule computeThemeVariables_list_name)
  have inside: "computeThemeVariables (Some t) d (listColorName i) = Some (colors ! i)"
    if "i < length colors"
  proof -
    from that
    have "forEachListColor (fixedVariables (if d then getDarkModeColors t else t)) 0 colors
        (listColorName (0 + i)) = Some (colors ! i)"
      by (rule forEachListColor_at)
    with name show ?thesis by simp
  qed
  have outside: "computeThemeVariables (Some t) d (listColorName i) = None"
    if far: "length colors \<le> i"
  proof -
    have "forEachListColor (fixedVariables (if d then getDarkModeColors t else t)) 0 colors
        (listColorName i) = fixedVariables (if d then getDarkModeColors t else t) (listColorName i)"
    proof (rule forEachListColor_before)
      fix j assume "j < length colors"
      with far have "i \<noteq> 0 + j" by simp
      then show "listColorName i \<noteq> listColorName (0 + j)" by (auto dest: listColorName_inj)
    qed
    with name show ?thesis by (simp only: fixedVariables_list_names)
  qed
  show ?thesis unfolding key using inside outside by blast
qed

theorem computeThemeVariables_list_colors_witness:
  "[''primary'' \<mapsto> JStr ''#000000'', ''listColors'' \<mapsto> JArr [JStr ''#111111'', JStr ''#111111'', JNum 5]]
      ''listColors'' = Some (JArr [JStr ''#111111'', JStr ''#111111'', JNum 5])
   \<and> computeThemeVariables
       (Some [''primary'' \<mapsto> JStr ''#000000'', ''listColors'' \<mapsto> JArr [JStr ''#111111'', JStr ''#111111'', JNum 5]])
       True ''--theme-list-color-2'' = Some (JStr ''#111111'')
   \<and> computeThemeVariables
       (Some [''primary'' \<mapsto> JStr ''#000000'', ''listColors'' \<mapsto> JArr [JStr ''#111111'', JStr ''#111111'', JNum 5]])
       False ''--theme-list-color-3'' = Some (JNum 5)
   \<and> computeThemeVariables
       (Some [''primary'' \<mapsto> JStr ''#000000'', ''listColors'' \<mapsto> JArr [JStr ''#111111'', JStr ''#111111'', JNum 5]])
       True ''--theme-list-color-4'' = None"
proof -
  let ?t = "[''primary'' \<mapsto> JStr ''#000000'', ''listColors'' \<mapsto> JArr [JStr ''#111111'', JStr ''#111111'', JNum 5]]"
  have a: "?t ''listColors'' = Some (JArr [JStr ''#111111'', JStr ''#111111'', JNum 5])" by simp
  have n: "numToString (int 1 + 1) = ''2''" "numToString (int 2 + 1) = ''3''"
    "numToString (int 3 + 1) = ''4''"
    by (simp_all add: numToString_def digits.simps)
  show ?thesis
    using a
      computeThemeVariables_list_colors [of ?t "[JStr ''#111111'', JStr ''#111111'', JNum 5]" 1 True]
      computeThemeVariables_list_colors [of ?t "[JStr ''#111111'', JStr ''#111111'', JNum 5]" 2 False]
      computeThemeVariables_list_colors [of ?t "[JStr ''#111111'', JStr ''#111111'', JNum 5]" 3 True]
    unfolding n by simp
qed

text \<open>
  C6 (as the code has it). For every theme, \<^const>\<open>getDarkModeColors\<close> sets the fourteen
  palette fields to the literals of the source; the three \<^verbatim>\<open>rgba\<close> values are written with
  a space after each comma.
\<close>

theorem getDarkModeColors_palette:
  "getDarkModeColors t ''bgPrimary'' = Some (JStr ''#1a1a1a'')
   \<and> getDarkModeColors t ''bgSecondary'' = Some (JStr ''#2d2d2d'')
   \<and> getDarkModeColors t ''bgTertiary'' = Some (JStr ''#3a3a3a'')
   \<and> getDarkModeColors t ''textPrimary'' = Some (JStr ''#e6e6e6'')
   \<and> getDarkModeColors t ''textSecondary'' = Some (JStr ''#b3b3b3'')
   \<and> getDarkModeColors t ''textTertiary'' = Some (JStr ''#888888'')
   \<and> getDarkModeColors t ''borderLight'' = Some (JStr ''#404040'')
   \<and> getDarkModeColors t ''borderMedium'' = Some (JStr ''#555555'')
   \<and> getDarkModeColors t ''inlineCodeBg'' = Some (JStr ''rgba(255, 255, 255, 0.1)'')
   \<and> getDarkModeColors t ''inlineCodeText'' = Some (JStr ''#f8f8f2'')
   \<and> getDarkModeColors t ''inlineCodeBorder'' = Some (JStr ''rgba(255, 255, 255, 0.15)'')
   \<and> getDarkModeColors t ''blockquoteBackground'' = Some (JStr ''rgba(255, 255, 255, 0.05)'')
   \<and> getDarkModeColors t ''tableHeaderBg'' = Some (JStr ''#2d2d2d'')
   \<and> getDarkModeColors t ''tableBorder'' = Some (JStr ''#404040'')"
proof -
  have "getDarkModeColors t ''bgPrimary'' = Some (JStr ''#1a1a1a'')"
    by (simp add: getDarkModeColors_other darkPalette_def)
  moreover have "getDarkModeColors t ''bgSecondary'' = Some (JStr ''#2d2d2d'')"
    by (simp add: getDarkModeColors_other darkPalette_def)
  moreover have "getDarkModeColors t ''bgTertiary'' = Some (JStr ''#3a3a3a'')"
    by (simp add: getDarkModeColors_other darkPalette_def)
  moreover have "getDarkModeColors t ''textPrimary'' = Some (JStr ''#e6e6e6'')"
    by (simp add: getDarkModeColors_other darkPalette_def)
  moreover have "getDarkModeColors t ''textSecondary'' = Some (JStr ''#b3b3b3'')"
    by (simp add: getDarkModeColors_other darkPalette_def)
  moreover have "getDarkModeColors t ''textTertiary'' = Some (JStr ''#888888'')"
    by (simp add: getDarkModeColors_other darkPalette_def)
  moreover have "getDarkModeColors t ''borderLight'' = Some (JStr ''#404040'')"
    by (simp add: getDarkModeColors_other darkPalette_def)
  moreover have "getDarkModeColors t ''borderMedium'' = Some (JStr ''#555555'')"
    by (simp add: getDarkModeColors_other darkPalette_def)
  moreover have "getDarkModeColors t ''inlineCodeBg'' = Some (JStr ''rgba(255, 255, 255, 0.1)'')"
    by (simp add: getDarkModeColors_other darkPalette_def)
  moreover have "getDarkModeColors t ''inlineCodeText'' = Some (JStr ''#f8f8f2'')"
    by (simp add: getDarkModeColors_other darkPalette_def)
  moreover have "getDarkModeColors t ''inlineCodeBorder'' = Some (JStr ''rgba(255, 255, 255, 0.15)'')"
    by (simp add: getDarkModeColors_other darkPalette_def)
  moreover have "getDarkModeColors t ''blockquoteBackground'' = Some (JStr ''rgba(255, 255, 255, 0.05)'')"
    by (simp add: getDarkModeColors_other darkPalette_def)
  moreover have "getDarkModeColors t ''tableHeaderBg'' = Some (JStr ''#2d2d2d'')"
    by (simp add: getDarkModeColors_other darkPalette_def)
  moreover have "getDarkModeColors t ''tableBorder'' = Some (JStr ''#404040'')"
    by (simp add: getDarkModeColors_other darkPalette_def)
  ultimately show ?thesis by (simp only: simp_thms)
qed

theorem getDarkModeColors_palette_counterexample:
  "getDarkModeColors Map.empty ''inlineCodeBg'' \<noteq> Some (JStr ''rgba(255,255,255,0.1)'')
   \<and> getDarkModeColors Map.empty ''inlineCodeBorder'' \<noteq> Some (JStr ''rgba(255,255,255,0.15)'')
   \<and> getDarkModeColors Map.empty ''blockquoteBackground'' \<noteq> Some (JStr ''rgba(255,255,255,0.05)'')"
  by (simp add: getDarkModeColors_other darkPalette_def)

text \<open>
  C10. For every theme, \<^const>\<open>getDarkModeColors\<close> sets \<^verbatim>\<open>blockquoteBorder\<close> and \<^verbatim>\<open>hrColor\<close> to
  the \<^verbatim>\<open>primary\<close> of the theme it was given, so in dark mode \<^verbatim>\<open>--theme-blockquote-border\<close>
  and \<^verbatim>\<open>--theme-hr-color\<close> are the input's \<^verbatim>\<open>primary\<close>: whatever the input had in those two
  fields, \<^verbatim>\<open>undefined\<close> when \<^verbatim>\<open>primary\<close> is absent, and the original string, not the
  \<^verbatim>\<open>rgb(...)\<close> one, when \<^verbatim>\<open>primary\<close> is brightened.
\<close>

theorem getDarkModeColors_border_and_hr:
  "getDarkModeColors t ''blockquoteBorder'' = Some (get t ''primary'')
   \<and> getDarkModeColors t ''hrColor'' = Some (get t ''primary'')
   \<and> computeThemeVariables (Some t) True ''--theme-blockquote-border'' = Some (get t ''primary'')
   \<and> computeThemeVariables (Some t) True ''--theme-hr-color'' = Some (get t ''primary'')
   \<and> (t ''primary'' = None \<longrightarrow>
        computeThemeVariables (Some t) True ''--theme-blockquote-border'' = Some JUndefined
        \<and> computeThemeVariables (Some t) True ''--theme-hr-color'' = Some JUndefined)"
proof -
  have a: "getDarkModeColors t ''blockquoteBorder'' = Some (get t ''primary'')"
    by (simp add: getDarkModeColors_other darkPalette_def)
  have b: "getDarkModeColors t ''hrColor'' = Some (get t ''primary'')"
    by (simp add: getDarkModeColors_other darkPalette_def)
  have "computeThemeVariables (Some t) True ''--theme-blockquote-border''
      = fixedVariables (getDarkModeColors t) ''--theme-blockquote-border''"
    by (simp add: computeThemeVariables_fixed fixed_names_not_list)
  also have "\<dots> = Some (get (getDarkModeColors t) ''blockquoteBorder'')"
    by (simp add: fixedVariables_def)
  also have "\<dots> = Some (get t ''primary'')" by (simp add: get_def [of "getDarkModeColors t"] a)
  finally have c: "computeThemeVariables (Some t) True ''--theme-blockquote-border''
      = Some (get t ''primary'')" .
  have "computeThemeVariables (Some t) True ''--theme-hr-color''
      = fixedVariables (getDarkModeColors t) ''--theme-hr-color''"
    by (simp add: computeThemeVariables_fixed fixed_names_not_list)
  also have "\<dots> = Some (get (getDarkModeColors t) ''hrColor'')"
    by (simp add: fixedVariables_def)
  also have "\<dots> = Some (get t ''primary'')" by (simp add: get_def [of "getDarkModeColors t"] b)
  finally have d: "computeThemeVariables (Some t) True ''--theme-hr-color''
      = Some (get t ''primary'')" .
  have e: "get t ''primary'' = JUndefined" if "t ''primary'' = None"
    using that by (simp add: get_def)
  show ?thesis using a b c d e by simp
qed

theorem getDarkModeColors_border_and_hr_witness:
  "computeThemeVariables
      (Some [''primary'' \<mapsto> JStr ''#000000'', ''blockquoteBorder'' \<mapsto> JStr ''#abcdef'',
             ''hrColor'' \<mapsto> JStr ''#fedcba''])
      True ''--theme-blockquote-border'' = Some (JStr ''#000000'')
   \<and> computeThemeVariables
      (Some [''primary'' \<mapsto> JStr ''#000000'', ''blockquoteBorder'' \<mapsto> JStr ''#abcdef'',
             ''hrColor'' \<mapsto> JStr ''#fedcba''])
      True ''--theme-hr-color'' = Some (JStr ''#000000'')
   \<and> [''hrColor'' \<mapsto> JStr ''#fedcba''] ''primary'' = None
   \<and> computeThemeVariables (Some [''hrColor'' \<mapsto> JStr ''#fedcba'']) True ''--theme-hr-color''
       = Some JUndefined
   \<and> computeThemeVariables (Some [''hrColor'' \<mapsto> JStr ''#fedcba'']) True ''--theme-blockquote-border''
       = Some JUndefined"
proof -
  have a: "[''hrColor'' \<mapsto> JStr ''#fedcba''] ''primary'' = None" by simp
  have b: "get [''primary'' \<mapsto> JStr ''#000000'', ''blockquoteBorder'' \<mapsto> JStr ''#abcdef'',
             ''hrColor'' \<mapsto> JStr ''#fedcba''] ''primary'' = JStr ''#000000''"
    by (simp add: get_def)
  show ?thesis
    using a getDarkModeColors_border_and_hr [of "[''hrColor'' \<mapsto> JStr ''#fedcba'']"]
      getDarkModeColors_border_and_hr [of "[''primary'' \<mapsto> JStr ''#000000'',
         ''blockquoteBorder'' \<mapsto> JStr ''#abcdef'', ''hrColor'' \<mapsto> JStr ''#fedcba'']"]
    unfolding b by (simp add: get_def)
qed

end
